theory Spec2Isabelle
  imports Main "HOL-Library.Word"
begin

section \<open>JavaScript values and string primitives used by the sources\<close>

text \<open>
  Strings are lists of code units. Every string the sources inspect (a data URI, a header
  value, a MIME type) is compared code unit by code unit, so \<^typ>\<open>string\<close> with its
  256 code units models them; a binary string (the result of \<open>atob\<close>) has code units
  0..255 by construction. Bytes of an \<open>ArrayBuffer\<close> are \<^typ>\<open>8 word\<close>.
\<close>

type_synonym byte = "8 word"

text \<open>
  The truthiness test of JavaScript on a value of type \<open>string | undefined\<close>:
  \<open>undefined\<close> and the empty string are falsy, every other string is truthy.
\<close>

definition truthy :: "string option \<Rightarrow> bool" where
  "truthy v = (case v of None \<Rightarrow> False | Some s \<Rightarrow> s \<noteq> [])"

text \<open>\<open>s.startsWith(p)\<close>.\<close>

definition startsWith :: "string \<Rightarrow> string \<Rightarrow> bool" where
  "startsWith s p = (take (length p) s = p)"

text \<open>
  \<open>s.split(sep)\<close> for a separator of one code unit: the segments between the
  occurrences of the separator, in order. The result is never empty
  (\<open>"".split(",")\<close> is \<open>[""]\<close>).
\<close>

fun split :: "string \<Rightarrow> char \<Rightarrow> string list" where
  "split [] sep = [[]]"
| "split (c # cs) sep =
     (if c = sep then [] # split cs sep
      else (case split cs sep of
              [] \<Rightarrow> [[c]]
            | seg # segs \<Rightarrow> (c # seg) # segs))"

text \<open>\<open>xs[i]\<close> on an array: \<open>undefined\<close> out of range.\<close>

definition at_index :: "'a list \<Rightarrow> nat \<Rightarrow> 'a option" where
  "at_index xs i = (if i < length xs then Some (xs ! i) else None)"

text \<open>
  \<open>s.trim()\<close>: white space and line terminators are removed from both ends. Among the
  code units 0..255 these are TAB, LF, VT, FF, CR, SPACE and NBSP.
\<close>

definition js_whitespace :: "char \<Rightarrow> bool" where
  "js_whitespace c = ((of_char c :: nat) \<in> {9, 10, 11, 12, 13, 32, 160})"

definition trim :: "string \<Rightarrow> string" where
  "trim s = rev (dropWhile js_whitespace (rev (dropWhile js_whitespace s)))"

text \<open>A number in a template literal: its decimal digits.\<close>

fun string_of_nat :: "nat \<Rightarrow> string" where
  "string_of_nat n =
     (if n < 10 then [char_of (48 + n)]
      else string_of_nat (n div 10) @ [char_of (48 + n mod 10)])"

declare string_of_nat.simps [simp del]

text \<open>
  The result of a property read \<open>obj[key]\<close> on an object literal: an own property (here
  always a string), a member inherited from \<open>Object.prototype\<close>, or \<open>undefined\<close>.
\<close>

datatype js_value = JString string | JInherited string | JUndefined

text \<open>
  The property names every object literal inherits from \<open>Object.prototype\<close>
  (ECMAScript, sections 20.1.3 and B.2.2). Each is a function, or for \<open>__proto__\<close> the
  prototype object itself: none is \<open>undefined\<close>, \<open>null\<close> or otherwise falsy.
\<close>

definition object_prototype_names :: "string list" where
  "object_prototype_names =
     [''constructor'', ''hasOwnProperty'', ''isPrototypeOf'', ''propertyIsEnumerable'',
      ''toLocaleString'', ''toString'', ''valueOf'', ''__proto__'',
      ''__defineGetter__'', ''__defineSetter__'', ''__lookupGetter__'', ''__lookupSetter__'']"

text \<open>\<open>obj[key]\<close> for an object literal with the own properties \<open>own\<close>.\<close>

definition js_get :: "(string \<times> string) list \<Rightarrow> string \<Rightarrow> js_value" where
  "js_get own key =
     (case map_of own key of
        Some v \<Rightarrow> JString v
      | None \<Rightarrow> if key \<in> set object_prototype_names then JInherited key else JUndefined)"

text \<open>\<open>!v\<close> is true for \<open>undefined\<close> and for the empty string.\<close>

fun js_falsy :: "js_value \<Rightarrow> bool" where
  "js_falsy (JString s) = (s = [])"
| "js_falsy (JInherited k) = False"
| "js_falsy JUndefined = True"

text \<open>\<open>v ?? d\<close> replaces only \<open>undefined\<close> (and \<open>null\<close>).\<close>

fun nullish_or :: "js_value \<Rightarrow> js_value \<Rightarrow> js_value" where
  "nullish_or JUndefined d = d"
| "nullish_or v d = v"

text \<open>
  A value in a template literal. A built-in function prints as its native-code source
  text, the prototype object as \<open>[object Object]\<close>.
\<close>

fun template_string :: "js_value \<Rightarrow> string" where
  "template_string (JString s) = s"
| "template_string JUndefined = ''undefined''"
| "template_string (JInherited k) =
     (if k = ''__proto__'' then ''[object Object]''
      else ''function '' @ (if k = ''constructor'' then ''Object'' else k)
             @ ''() { [native code] }'')"

section \<open>Message content (\<open>types\<close>)\<close>

text \<open>
  \<open>MessageContent\<close> is a string or an array of content parts; a part is a
  \<open>TextContent\<close> (\<open>type: "text"\<close>) or an \<open>ImageContent\<close> (\<open>type: "image_url"\<close>).
  The sources read \<open>item.image_url?.url\<close>, so the \<open>image_url\<close> object may be missing.
\<close>

record ImageUrl =
  url :: string

datatype ContentPart =
    TextContent string
  | ImageContent "ImageUrl option"

datatype MessageContent =
    ContentString string
  | ContentArray "ContentPart list"

record Message =
  role :: string
  content :: MessageContent

section \<open>Image utilities (\<open>src/utils/image.ts\<close>)\<close>

subsection \<open>\<open>extractImageFromContent\<close>\<close>

text \<open>\<open>item.image_url?.url\<close>: \<open>undefined\<close> when \<open>image_url\<close> is missing.\<close>

definition image_url_url :: "ImageUrl option \<Rightarrow> string option" where
  "image_url_url iu = (case iu of None \<Rightarrow> None | Some u \<Rightarrow> Some (url u))"

text \<open>The \<open>for\<close> loop over the parts: the first part that passes the test returns.\<close>

fun extractImageFromParts :: "ContentPart list \<Rightarrow> string option" where
  "extractImageFromParts [] = None"
| "extractImageFromParts (TextContent t # items) = extractImageFromParts items"
| "extractImageFromParts (ImageContent iu # items) =
     (if truthy (image_url_url iu) then image_url_url iu
      else extractImageFromParts items)"

fun extractImageFromContent :: "MessageContent \<Rightarrow> string option" where
  "extractImageFromContent (ContentString s) = None"
| "extractImageFromContent (ContentArray items) = extractImageFromParts items"

text \<open>
  The url of a part that has type \<open>image_url\<close> and a present \<open>image_url.url\<close>, as the
  sources test presence (\<open>item.image_url?.url\<close> is truthy: the object is there and its
  url is not the empty string); \<open>None\<close> for every other part.
\<close>

fun image_part_url :: "ContentPart \<Rightarrow> string option" where
  "image_part_url (TextContent t) = None"
| "image_part_url (ImageContent iu) =
     (if truthy (image_url_url iu) then image_url_url iu else None)"

subsection \<open>\<open>mimeToExtension\<close>\<close>

definition MIME_TO_EXT :: "(string \<times> string) list" where
  "MIME_TO_EXT =
     [(''image/jpeg'', ''.jpg''),
      (''image/png'', ''.png''),
      (''image/webp'', ''.webp''),
      (''image/gif'', ''.gif'')]"

text \<open>\<open>new Set(Object.keys(MIME_TO_EXT))\<close>: the own keys only.\<close>

definition SUPPORTED_MIME_TYPES :: "string set" where
  "SUPPORTED_MIME_TYPES = set (map fst MIME_TO_EXT)"

text \<open>
  The function returns the extension and may write a warning to the console; the pair is
  (returned value, warnings written).
\<close>

definition mimeToExtension_log :: "string \<Rightarrow> js_value \<times> string list" where
  "mimeToExtension_log mimeType =
     (let ext = js_get MIME_TO_EXT mimeType;
          warnings =
            (if js_falsy ext
             then [''Unsupported MIME type '' @ [CHR 0x22] @ mimeType @ [CHR 0x22]
                     @ '', defaulting to .png'']
             else [])
      in (nullish_or ext (JString ''.png''), warnings))"

definition mimeToExtension :: "string \<Rightarrow> js_value" where
  "mimeToExtension mimeType = fst (mimeToExtension_log mimeType)"

subsection \<open>Failures\<close>

text \<open>
  Every \<open>throw\<close> and every rejected promise is a value of this type. \<open>ValidationError\<close>
  carries message, field and code in the order of its constructor's arguments;
  \<open>ModelNotFoundError\<close> carries the model id; \<open>Error\<close> is the built-in error with its
  message; \<open>InvalidCharacterError\<close> is what \<open>atob\<close> throws; \<open>TypeError\<close> and
  \<open>SyntaxError\<close> are what \<open>fetch\<close> and \<open>response.json()\<close> reject with.
\<close>

datatype failure =
    ValidationError string string string
  | ModelNotFoundError string
  | Error string
  | InvalidCharacterError
  | TypeError string
  | SyntaxError string

subsection \<open>\<open>atob\<close>\<close>

text \<open>
  The platform's \<open>atob\<close> is the forgiving-base64 decode of the WHATWG Infra standard:
  ASCII white space is removed; if the length is then a multiple of four, one or two
  trailing \<open>=\<close> are removed; a length that leaves remainder one, or a code unit outside
  the base64 alphabet, throws; every four code units give three bytes, a remainder of
  three gives two bytes and a remainder of two gives one, the surplus bits discarded.
\<close>

definition ascii_whitespace :: "char \<Rightarrow> bool" where
  "ascii_whitespace c = ((of_char c :: nat) \<in> {9, 10, 12, 13, 32})"

definition base64_value :: "char \<Rightarrow> nat option" where
  "base64_value c =
     (let n = (of_char c :: nat) in
      if 65 \<le> n \<and> n \<le> 90 then Some (n - 65)
      else if 97 \<le> n \<and> n \<le> 122 then Some (n - 71)
      else if 48 \<le> n \<and> n \<le> 57 then Some (n + 4)
      else if n = 43 then Some 62
      else if n = 47 then Some 63
      else None)"

definition remove_padding :: "string \<Rightarrow> string" where
  "remove_padding d =
     (if d \<noteq> [] \<and> last d = CHR ''=''
      then (let d' = butlast d
            in if d' \<noteq> [] \<and> last d' = CHR ''='' then butlast d' else d')
      else d)"

fun decode_sextets :: "nat list \<Rightarrow> string" where
  "decode_sextets (a # b # c # d # rest) =
     (let n = a * 262144 + b * 4096 + c * 64 + d
      in char_of (n div 65536 mod 256) # char_of (n div 256 mod 256) # char_of (n mod 256)
           # decode_sextets rest)"
| "decode_sextets [a, b, c] =
     (let n = (a * 4096 + b * 64 + c) div 4
      in [char_of (n div 256 mod 256), char_of (n mod 256)])"
| "decode_sextets [a, b] =
     (let n = (a * 64 + b) div 16
      in [char_of (n mod 256)])"
| "decode_sextets [a] = []"
| "decode_sextets [] = []"

fun base64_values :: "string \<Rightarrow> nat list option" where
  "base64_values [] = Some []"
| "base64_values (c # cs) =
     (case base64_value c of
        None \<Rightarrow> None
      | Some v \<Rightarrow> (case base64_values cs of None \<Rightarrow> None | Some vs \<Rightarrow> Some (v # vs)))"

definition atob :: "string \<Rightarrow> failure + string" where
  "atob input =
     (let stripped = filter (\<lambda>c. \<not> ascii_whitespace c) input;
          unpadded = (if length stripped mod 4 = 0 then remove_padding stripped else stripped)
      in if length unpadded mod 4 = 1 then Inl InvalidCharacterError
         else (case base64_values unpadded of
                 None \<Rightarrow> Inl InvalidCharacterError
               | Some vs \<Rightarrow> Inr (decode_sextets vs)))"

subsection \<open>\<open>fetch\<close>: requests and responses\<close>

record Blob =
  blob_parts :: "byte list"
  blob_type :: string

text \<open>A \<open>FormData\<close> is its entries in order: field name, blob, file name.\<close>

type_synonym FormData = "(string \<times> Blob \<times> string) list"

record Request =
  req_url :: string
  req_method :: string
  req_headers :: "(string \<times> string) list"
  req_body :: "FormData option"

text \<open>
  The value \<open>response.json()\<close> resolves with: any JSON value. The source casts it to
  \<open>{ fileContent?: { path: string } }\<close> without a check, so the model keeps every value
  the body can hold. A number is an IEEE double as \<open>JSON.parse\<close> gives it: the mantissa
  and the binary exponent of a finite value, or an infinity when the literal
  overflows. An object is the list of its own properties.
\<close>

datatype json_number = Finite int int | PlusInfinity | MinusInfinity

datatype json =
    JsonNull
  | JsonBool bool
  | JsonNumber json_number
  | JsonString string
  | JsonArray "json list"
  | JsonObject "(string \<times> json) list"

text \<open>
  The property read \<open>v.name\<close> for a name that no built-in prototype defines, as
  \<open>fileContent\<close> and \<open>path\<close> are: an own property of an object; \<open>undefined\<close> on an
  object without it, on an array, a string, a number and a boolean. (On \<open>null\<close> the read
  throws, which is written where the sources read.)
\<close>

fun json_member :: "json \<Rightarrow> string \<Rightarrow> json option" where
  "json_member (JsonObject properties) name = map_of properties name"
| "json_member v name = None"

text \<open>
  \<open>!v\<close> on such a value: \<open>null\<close>, \<open>false\<close>, zero and the empty string are falsy;
  every other number, string and boolean, and every array and object, is truthy.
\<close>

fun json_falsy :: "json \<Rightarrow> bool" where
  "json_falsy JsonNull = True"
| "json_falsy (JsonBool b) = (\<not> b)"
| "json_falsy (JsonNumber (Finite m e)) = (m = 0)"
| "json_falsy (JsonNumber n) = False"
| "json_falsy (JsonString s) = (s = [])"
| "json_falsy (JsonArray items) = False"
| "json_falsy (JsonObject properties) = False"

text \<open>
  A response whose body has been received: status line, headers (by lower-case name),
  and the body as \<open>arrayBuffer()\<close>, \<open>text()\<close> and \<open>json()\<close> give it. \<open>json()\<close> rejects
  when the body is not JSON.
\<close>

record Response =
  status :: nat
  statusText :: string
  headers :: "(string \<times> string) list"
  arrayBuffer :: "byte list"
  body_text :: string
  json :: "failure + json"

text \<open>\<open>response.ok\<close>: the status is in the range 200..299.\<close>

definition ok :: "Response \<Rightarrow> bool" where
  "ok response = (200 \<le> status response \<and> status response \<le> 299)"

definition headers_get :: "Response \<Rightarrow> string \<Rightarrow> string option" where
  "headers_get response name = map_of (headers response) name"

subsection \<open>\<open>processImageUrl\<close>\<close>

record ImageData =
  data :: "byte list"
  mimeType :: string

text \<open>
  \<open>/^data:([^;,]+)/.exec(imageUrl)?.[1]\<close>: after the prefix \<open>data:\<close>, the longest run of
  code units other than \<open>;\<close> and \<open>,\<close>, which must not be empty; \<open>undefined\<close> when the
  expression does not match.
\<close>

definition data_uri_media_type :: "string \<Rightarrow> string option" where
  "data_uri_media_type imageUrl =
     (if startsWith imageUrl ''data:''
      then (let run = takeWhile (\<lambda>c. c \<noteq> CHR '';'' \<and> c \<noteq> CHR '','') (drop 5 imageUrl)
            in if run = [] then None else Some run)
      else None)"

text \<open>The loop \<open>bytes[i] = binaryString.charCodeAt(i)\<close> over a \<open>Uint8Array\<close>.\<close>

definition bytes_of_binary_string :: "string \<Rightarrow> byte list" where
  "bytes_of_binary_string binaryString = map (\<lambda>c. of_nat (of_char c)) binaryString"

definition USER_AGENT :: string where
  "USER_AGENT = ''Mozilla/5.0 (compatible; 1min-relay-worker/1.0; +https://1min.ai)''"

text \<open>The request of \<open>fetch(imageUrl, {headers: {"User-Agent": ...}})\<close>.\<close>

definition image_request :: "string \<Rightarrow> Request" where
  "image_request imageUrl =
     \<lparr>req_url = imageUrl, req_method = ''GET'',
      req_headers = [(''User-Agent'', USER_AGENT)], req_body = None\<rparr>"

definition processImageUrl ::
  "(Request \<Rightarrow> failure + Response) \<Rightarrow> string \<Rightarrow> failure + ImageData" where
  "processImageUrl fetch imageUrl =
     (if startsWith imageUrl ''data:image/'' then
        (let mimeType = (case data_uri_media_type imageUrl of
                           None \<Rightarrow> ''image/png''
                         | Some m \<Rightarrow> m);
             base64Data = at_index (split imageUrl (CHR '','')) 1
         in case base64Data of
              None \<Rightarrow> Inl (Error ''Invalid base64 image format'')
            | Some b \<Rightarrow>
                if b = [] then Inl (Error ''Invalid base64 image format'')
                else (case atob b of
                        Inl e \<Rightarrow> Inl e
                      | Inr binaryString \<Rightarrow>
                          Inr \<lparr>data = bytes_of_binary_string binaryString,
                               mimeType = mimeType\<rparr>))
      else
        (case fetch (image_request imageUrl) of
           Inl e \<Rightarrow> Inl e
         | Inr response \<Rightarrow>
             if \<not> ok response
             then Inl (Error (''Failed to fetch image: '' @ string_of_nat (status response)
                               @ '' '' @ statusText response))
             else
               (let rawMime =
                      (case headers_get response ''content-type'' of
                         None \<Rightarrow> None
                       | Some v \<Rightarrow>
                           (case at_index (split v (CHR '';'')) 0 of
                              None \<Rightarrow> None
                            | Some seg \<Rightarrow> Some (trim seg)));
                    mimeType =
                      (case rawMime of
                         None \<Rightarrow> ''image/png''
                       | Some m \<Rightarrow>
                           if m \<noteq> [] \<and> m \<in> SUPPORTED_MIME_TYPES then m else ''image/png'')
                in Inr \<lparr>data = arrayBuffer response, mimeType = mimeType\<rparr>)))"

subsection \<open>\<open>uploadImageToAsset\<close>\<close>

text \<open>
  \<open>new Blob(parts, {type})\<close> stores the type in lower case, and stores the empty string
  when the type has a code unit outside U+0020..U+007E (File API).
\<close>

definition ascii_lowercase :: "char \<Rightarrow> char" where
  "ascii_lowercase c =
     (let n = (of_char c :: nat) in if 65 \<le> n \<and> n \<le> 90 then char_of (n + 32) else c)"

definition blob_type_of :: "string \<Rightarrow> string" where
  "blob_type_of t =
     (if \<exists>c \<in> set t. (of_char c :: nat) < 32 \<or> 126 < (of_char c :: nat) then []
      else map ascii_lowercase t)"

text \<open>
  The request the function builds: the form with the one field \<open>asset\<close>, posted with the
  API key. \<open>uuid\<close> is the value \<open>crypto.randomUUID()\<close> returns in this call.
\<close>

definition upload_request :: "string \<Rightarrow> ImageData \<Rightarrow> string \<Rightarrow> string \<Rightarrow> Request" where
  "upload_request uuid imageData apiKey assetUrl =
     (let ext = mimeToExtension (mimeType imageData);
          filename = ''relay'' @ uuid @ template_string ext;
          blob = \<lparr>blob_parts = data imageData, blob_type = blob_type_of (mimeType imageData)\<rparr>;
          formData = [(''asset'', blob, filename)]
      in \<lparr>req_url = assetUrl, req_method = ''POST'',
          req_headers = [(''API-KEY'', apiKey)], req_body = Some formData\<rparr>)"

text \<open>
  \<open>result.fileContent?.path\<close>. Reading \<open>fileContent\<close> of \<open>null\<close> throws a
  \<open>TypeError\<close>; on every other value the read gives the property or \<open>undefined\<close>.
  The optional chain gives \<open>undefined\<close> when \<open>fileContent\<close> is \<open>undefined\<close> or \<open>null\<close>,
  and reads \<open>path\<close> otherwise.
\<close>

definition fileContent_path :: "json \<Rightarrow> failure + json option" where
  "fileContent_path result =
     (case result of
        JsonNull \<Rightarrow>
          Inl (TypeError (''Cannot read properties of null (reading '' @ [CHR 0x27]
                            @ ''fileContent'' @ [CHR 0x27] @ '')''))
      | _ \<Rightarrow>
          Inr (case json_member result ''fileContent'' of
                 None \<Rightarrow> None
               | Some JsonNull \<Rightarrow> None
               | Some fc \<Rightarrow> json_member fc ''path''))"

text \<open>
  The function returns \<open>result.fileContent.path\<close>, whatever JSON value that is: the
  declared result type \<open>string\<close> rests on the unchecked cast.
\<close>

definition uploadImageToAsset ::
  "(Request \<Rightarrow> failure + Response) \<Rightarrow> string \<Rightarrow> ImageData \<Rightarrow> string \<Rightarrow> string
     \<Rightarrow> failure + json" where
  "uploadImageToAsset fetch uuid imageData apiKey assetUrl =
     (case fetch (upload_request uuid imageData apiKey assetUrl) of
        Inl e \<Rightarrow> Inl e
      | Inr response \<Rightarrow>
          if \<not> ok response
          then Inl (Error (''Failed to upload image: '' @ string_of_nat (status response)
                            @ '' '' @ statusText response @ '' - '' @ body_text response))
          else
            (case json response of
               Inl e \<Rightarrow> Inl e
             | Inr result \<Rightarrow>
                 (case fileContent_path result of
                    Inl e \<Rightarrow> Inl e
                  | Inr None \<Rightarrow> Inl (Error ''No image path returned from asset API'')
                  | Inr (Some p) \<Rightarrow>
                      if json_falsy p
                      then Inl (Error ''No image path returned from asset API'')
                      else Inr p)))"

section \<open>Model validation (\<open>validateModelAndMessages\<close>)\<close>

text \<open>
  The result of \<open>parseAndGetConfig\<close>, the catalog snapshot of \<open>getModelData\<close> and the
  validated request. The web-search configuration is carried through unread, so its
  type is a parameter.
\<close>

record 'c ModelParseResult =
  cleanModel :: string
  webSearchConfig :: "'c option"
  error :: "string option"

record ModelData =
  chatModelIds :: "string list"
  imageModelIds :: "string list"
  visionModelIds :: "string list"

record 'c ValidatedModel =
  cleanModel :: string
  webSearchConfig :: "'c option"
  processedMessages :: "Message list"

text \<open>
  The three collaborators are parameters. \<open>parseAndGetConfig\<close> is synchronous and
  returns its result object. \<open>getModelData\<close> performs I/O: it takes the state of the
  world \<open>'w\<close> and returns the snapshot, or the rejection, with the new state.
  \<open>processMessagesWithImageCheck\<close> is a call into another module: it too takes and
  returns the state and may throw. The state a call of \<open>validateModelAndMessages\<close>
  returns shows which collaborators it has invoked. The first test is
  \<open>if (parseResult.error)\<close>: the \<open>ValidationError\<close> carries the error string that
  the test has found truthy.
\<close>

definition validateModelAndMessages ::
  "(string \<Rightarrow> 'env \<Rightarrow> 'c ModelParseResult)
     \<Rightarrow> ('env \<Rightarrow> 'w \<Rightarrow> (failure + ModelData) \<times> 'w)
     \<Rightarrow> (Message list \<Rightarrow> 'w \<Rightarrow> (failure + Message list \<times> bool) \<times> 'w)
     \<Rightarrow> string \<Rightarrow> Message list \<Rightarrow> 'env \<Rightarrow> 'w
     \<Rightarrow> (failure + 'c ValidatedModel) \<times> 'w" where
  "validateModelAndMessages parseAndGetConfig getModelData processMessagesWithImageCheck
       rawModel messages env w =
     (let parseResult = parseAndGetConfig rawModel env
      in case (if truthy (error parseResult) then error parseResult else None) of
           Some e \<Rightarrow> (Inl (ValidationError e ''model'' ''model_not_found''), w)
         | None \<Rightarrow>
             (let model = ModelParseResult.cleanModel parseResult;
                  config = ModelParseResult.webSearchConfig parseResult
              in case getModelData env w of
                   (Inl e, w1) \<Rightarrow> (Inl e, w1)
                 | (Inr modelData, w1) \<Rightarrow>
                     if model \<notin> set (chatModelIds modelData) then
                       (if model \<in> set (imageModelIds modelData)
                        then (Inl (ValidationError
                                (''Model '' @ [CHR 0x27] @ model @ [CHR 0x27]
                                   @ '' is an image generation model. ''
                                   @ ''Use POST /v1/images/generations instead.'')
                                ''model'' ''model_not_supported''), w1)
                        else (Inl (ModelNotFoundError model), w1))
                     else
                       (case processMessagesWithImageCheck messages w1 of
                          (Inl e, w2) \<Rightarrow> (Inl e, w2)
                        | (Inr (processed, hasImages), w2) \<Rightarrow>
                            if hasImages \<and> model \<notin> set (visionModelIds modelData)
                            then (Inl (ValidationError
                                    (''Model '' @ [CHR 0x27] @ model @ [CHR 0x27]
                                       @ '' does not support image inputs'')
                                    ''model'' ''model_not_supported''), w2)
                            else (Inr \<lparr>cleanModel = model, webSearchConfig = config,
                                       processedMessages = processed\<rparr>, w2))))"

subsection \<open>\<open>processMessagesWithImageCheck\<close>\<close>

text \<open>
  Modelled from the spec: the scan of one message's content, which
  \<open>processMessagesWithImageCheck\<close> (module \<open>message-processing\<close>, not among the
  sources) performs. The specification says: content that is a sequence of parts is
  scanned for a part with type \<open>image_url\<close> and a present \<open>image_url.url\<close>; a plain
  string has no image.
\<close>

fun content_has_image :: "MessageContent \<Rightarrow> bool" where
  "content_has_image (ContentString s) = False"
| "content_has_image (ContentArray items) = (\<exists>p \<in> set items. image_part_url p \<noteq> None)"

text \<open>
  Modelled from the spec: the normalisation of one message's content, which
  \<open>processMessagesWithImageCheck\<close> performs. The specification says: content that is
  a plain string passes through unchanged, and mixed content is normalised into a
  canonical shape. It does not say what that shape is: it is the parameter
  \<open>canonical\<close>.
\<close>

fun process_content :: "(ContentPart list \<Rightarrow> MessageContent) \<Rightarrow> MessageContent \<Rightarrow> MessageContent"
  where
  "process_content canonical (ContentString s) = ContentString s"
| "process_content canonical (ContentArray items) = canonical items"

text \<open>
  Modelled from the spec: \<open>processMessagesWithImageCheck\<close> (module
  \<open>message-processing\<close>) is not among the sources. The specification says: one pass
  over the messages gives the processed messages, in the order of the input, and
  \<open>hasImages\<close>, which is true if an image part is found in any message.
\<close>

definition processMessagesWithImageCheck ::
  "(ContentPart list \<Rightarrow> MessageContent) \<Rightarrow> Message list \<Rightarrow> Message list \<times> bool" where
  "processMessagesWithImageCheck canonical messages =
     (map (\<lambda>m. m\<lparr>content := process_content canonical (content m)\<rparr>) messages,
      \<exists>m \<in> set messages. content_has_image (content m))"

section \<open>Base64 encoding (RFC 4648), the reference for \<open>atob\<close>\<close>

text \<open>
  What a valid base64 text of a byte sequence is: the bytes are read as a bit string in
  groups of six bits, three bytes giving four groups; a last group of one byte gives
  two groups and a last group of two bytes three, the missing low bits set to zero.
  Each group is written as its letter of the alphabet \<open>A-Z a-z 0-9 + /\<close>, and the
  text is padded with \<open>=\<close> to a multiple of four letters. The padding may be omitted
  (RFC 4648, section 3.2), and \<open>atob\<close> accepts both forms.
\<close>

definition base64_digit :: "nat \<Rightarrow> char" where
  "base64_digit n =
     (if n < 26 then char_of (65 + n)
      else if n < 52 then char_of (71 + n)
      else if n < 62 then char_of (n - 4)
      else if n = 62 then CHR ''+''
      else CHR ''/'')"

fun base64_sextets :: "byte list \<Rightarrow> nat list" where
  "base64_sextets (a # b # c # rest) =
     (let n = unat a * 65536 + unat b * 256 + unat c
      in n div 262144 # n div 4096 mod 64 # n div 64 mod 64 # n mod 64 # base64_sextets rest)"
| "base64_sextets [a, b] =
     (let n = (unat a * 256 + unat b) * 4
      in [n div 4096, n div 64 mod 64, n mod 64])"
| "base64_sextets [a] =
     (let n = unat a * 16
      in [n div 64, n mod 64])"
| "base64_sextets [] = []"

definition base64_padding :: "nat \<Rightarrow> string" where
  "base64_padding len = replicate ((3 - len mod 3) mod 3) (CHR ''='')"

definition base64_encode :: "bool \<Rightarrow> byte list \<Rightarrow> string" where
  "base64_encode padded bs =
     map base64_digit (base64_sextets bs) @ (if padded then base64_padding (length bs) else [])"

text \<open>A network on which every request fails: the data URI branch never reaches it.\<close>

definition no_network :: "Request \<Rightarrow> failure + Response" where
  "no_network request = Inl (TypeError ''fetch failed'')"

text \<open>
  The media type a \<open>content-type\<close> header value declares: the text before the first
  \<open>;\<close>, the parameters after it ignored, without the white space around it.
\<close>

definition declared_type :: "string \<Rightarrow> string" where
  "declared_type v = trim (takeWhile (\<lambda>c. c \<noteq> CHR '';'') v)"

text \<open>An origin that answers every request with status 200, the given headers and two bytes.\<close>

definition example_origin :: "(string \<times> string) list \<Rightarrow> Request \<Rightarrow> failure + Response" where
  "example_origin hs request =
     Inr \<lparr>status = 200, statusText = ''OK'', headers = hs, arrayBuffer = [137, 80],
          body_text = [], json = Inl (SyntaxError ''Unexpected token'')\<rparr>"

section \<open>Example collaborators\<close>

text \<open>
  A catalog, a parser that rejects only the empty model name, a registry that answers
  with the catalog, and a message pass. The state of the world is the log of the
  collaborator calls that perform work outside the validator, in order.
\<close>

definition example_catalog :: ModelData where
  "example_catalog =
     \<lparr>chatModelIds = [''gpt-4o'', ''mistral-small''],
      imageModelIds = [''img-gen-1''],
      visionModelIds = [''gpt-4o'']\<rparr>"

definition example_parse :: "string \<Rightarrow> unit \<Rightarrow> unit ModelParseResult" where
  "example_parse rawModel env =
     \<lparr>ModelParseResult.cleanModel = rawModel, ModelParseResult.webSearchConfig = None,
      error = (if rawModel = [] then Some ''Model name is required'' else None)\<rparr>"

definition example_getModelData ::
  "unit \<Rightarrow> string list \<Rightarrow> (failure + ModelData) \<times> string list" where
  "example_getModelData env log = (Inr example_catalog, log @ [''getModelData''])"

definition example_process ::
  "Message list \<Rightarrow> string list \<Rightarrow> (failure + Message list \<times> bool) \<times> string list" where
  "example_process messages log =
     (Inr (processMessagesWithImageCheck ContentArray messages),
      log @ [''processMessagesWithImageCheck''])"

lemmas example_defs =
  validateModelAndMessages_def example_parse_def example_getModelData_def example_process_def
  example_catalog_def processMessagesWithImageCheck_def truthy_def image_url_url_def

text \<open>An asset endpoint that answers every request with the given status line and body,
  and an image to upload.\<close>

definition example_asset_endpoint ::
  "nat \<Rightarrow> string \<Rightarrow> string \<Rightarrow> failure + json \<Rightarrow> Request \<Rightarrow> failure + Response" where
  "example_asset_endpoint code reason body parsed request =
     Inr \<lparr>status = code, statusText = reason, headers = [], arrayBuffer = [],
          body_text = body, json = parsed\<rparr>"

definition example_image :: ImageData where
  "example_image = \<lparr>data = [137, 80], mimeType = ''image/png''\<rparr>"

section \<open>Properties of the image utilities\<close>

subsection \<open>\<open>extractImageFromContent\<close>\<close>

lemma extractImageFromParts_skip:
  "\<forall>q \<in> set before. image_part_url q = None \<Longrightarrow>
     extractImageFromParts (before @ rest) = extractImageFromParts rest"
  by (induction before rule: extractImageFromParts.induct)
     (auto simp: truthy_def split: if_splits)

lemma extractImageFromParts_hit:
  "image_part_url p = Some u \<Longrightarrow> extractImageFromParts (p # rest) = Some u"
  by (cases p) (auto split: if_splits)

text \<open>
  Claim C10. \<open>extractImageFromContent\<close> returns null when the content is a plain string
  or when no part of it has type \<open>image_url\<close> and a present \<open>image_url.url\<close>; otherwise
  it returns the url of the first such part in content order, whatever follows it. A
  url is present as the source tests it: \<open>item.image_url?.url\<close> is truthy, that is, the
  \<open>image_url\<close> object is there and its url is not the empty string.
\<close>

theorem extractImageFromContent_first_image:
  "extractImageFromContent (ContentString s) = None \<and>
   ((\<forall>p \<in> set items. image_part_url p = None) \<longrightarrow>
      extractImageFromContent (ContentArray items) = None) \<and>
   (\<forall>before p rest u.
      items = before @ p # rest \<and> (\<forall>q \<in> set before. image_part_url q = None) \<and>
      image_part_url p = Some u \<longrightarrow>
      extractImageFromContent (ContentArray items) = Some u)"
proof (intro conjI impI allI)
  show "extractImageFromContent (ContentString s) = None" by simp
next
  assume "\<forall>p \<in> set items. image_part_url p = None"
  then have "extractImageFromParts (items @ []) = extractImageFromParts []"
    by (rule extractImageFromParts_skip)
  then show "extractImageFromContent (ContentArray items) = None" by simp
next
  fix before p rest u
  assume a: "items = before @ p # rest \<and> (\<forall>q \<in> set before. image_part_url q = None) \<and>
      image_part_url p = Some u"
  then have "extractImageFromParts (before @ p # rest) = extractImageFromParts (p # rest)"
    by (simp add: extractImageFromParts_skip)
  with a show "extractImageFromContent (ContentArray items) = Some u"
    by (simp add: extractImageFromParts_hit)
qed

theorem extractImageFromContent_first_image_witness:
  "extractImageFromContent
     (ContentArray [TextContent ''look'', ImageContent None,
                    ImageContent (Some \<lparr>url = []\<rparr>),
                    ImageContent (Some \<lparr>url = ''https://a.example/1.png''\<rparr>),
                    ImageContent (Some \<lparr>url = ''https://b.example/2.png''\<rparr>)])
     = Some ''https://a.example/1.png'' \<and>
   extractImageFromContent (ContentArray [TextContent ''look'', ImageContent None]) = None"
  using extractImageFromContent_first_image
          [of undefined "[TextContent ''look'', ImageContent None,
                    ImageContent (Some \<lparr>url = []\<rparr>),
                    ImageContent (Some \<lparr>url = ''https://a.example/1.png''\<rparr>),
                    ImageContent (Some \<lparr>url = ''https://b.example/2.png''\<rparr>)]"]
        extractImageFromContent_first_image
          [of undefined "[TextContent ''look'', ImageContent None]"]
  by (simp add: truthy_def image_url_url_def)

subsection \<open>\<open>mimeToExtension\<close>\<close>

text \<open>
  What the table lookup gives: the documented extension for each of the four supported
  types, and \<open>.png\<close> for every string that is neither a supported type nor a property
  name inherited from \<open>Object.prototype\<close>. The function has no \<open>throw\<close> and reads no
  index: it returns for every string.
\<close>

lemma mimeToExtension_table:
  "mimeToExtension ''image/jpeg'' = JString ''.jpg'' \<and>
   mimeToExtension ''image/png'' = JString ''.png'' \<and>
   mimeToExtension ''image/webp'' = JString ''.webp'' \<and>
   mimeToExtension ''image/gif'' = JString ''.gif'' \<and>
   (m \<notin> SUPPORTED_MIME_TYPES \<and> m \<notin> set object_prototype_names \<longrightarrow>
      mimeToExtension m = JString ''.png'')"
  by (simp add: mimeToExtension_def mimeToExtension_log_def js_get_def MIME_TO_EXT_def
        SUPPORTED_MIME_TYPES_def)

text \<open>
  Claim C9. \<open>mimeToExtension\<close> never throws and returns \<open>.jpg\<close>, \<open>.png\<close>, \<open>.webp\<close>,
  \<open>.gif\<close> for the four supported types and \<open>.png\<close> for every other string. The code
  reads \<open>MIME_TO_EXT[mimeType]\<close> on an object literal, which also finds the members
  inherited from \<open>Object.prototype\<close>: for the string \<open>constructor\<close> the read gives the
  inherited function, which is neither falsy nor nullish, so no warning is written
  and the function itself is returned in place of \<open>.png\<close>.
\<close>

theorem mimeToExtension_inherited_property:
  "mimeToExtension_log ''constructor'' = (JInherited ''constructor'', []) \<and>
   mimeToExtension ''constructor'' \<noteq> JString ''.png''"
  by (simp add: mimeToExtension_def mimeToExtension_log_def js_get_def MIME_TO_EXT_def
        object_prototype_names_def)

subsection \<open>\<open>uploadImageToAsset\<close>\<close>

lemma fileContent_path_not_null:
  "result \<noteq> JsonNull \<Longrightarrow>
     fileContent_path result =
       Inr (case json_member result ''fileContent'' of
              None \<Rightarrow> None
            | Some JsonNull \<Rightarrow> None
            | Some fc \<Rightarrow> json_member fc ''path'')"
  by (cases result) (simp_all add: fileContent_path_def)

lemma fileContent_path_null: "\<exists>e. fileContent_path JsonNull = Inl e"
  by (simp add: fileContent_path_def)

lemma fileContent_path_lacking:
  assumes "json_member result ''fileContent'' = None
           \<or> (\<exists>fc. json_member result ''fileContent'' = Some fc \<and> json_member fc ''path'' = None)"
    and "result \<noteq> JsonNull"
  shows "fileContent_path result = Inr None"
  using assms by (auto simp: fileContent_path_not_null split: json.splits)

lemma fileContent_path_found:
  assumes "fileContent_path result = Inr (Some p)"
  shows "\<exists>fc. json_member result ''fileContent'' = Some fc \<and> json_member fc ''path'' = Some p"
proof -
  have "result \<noteq> JsonNull"
    using assms by (auto simp: fileContent_path_def)
  then show ?thesis
    using assms
    by (auto simp: fileContent_path_not_null split: option.splits json.splits)
qed

text \<open>
  Claim C7, as amended. Whenever the asset endpoint answers: a response outside 200..299
  fails with the error whose message carries the upstream status, the status text and
  the body text; a response in 200..299 whose JSON body lacks \<open>fileContent.path\<close>
  fails, and when that body is not \<open>null\<close> the error is
  \<open>No image path returned from asset API\<close>; and whenever \<open>uploadImageToAsset\<close>
  returns, the value it returns is the \<open>fileContent.path\<close> of a response in 200..299
  and is neither absent (\<open>null\<close>) nor the empty string nor otherwise falsy.
\<close>

theorem uploadImageToAsset_failures:
  "(\<forall>response.
      fetch (upload_request uuid imageData apiKey assetUrl) = Inr response \<and> \<not> ok response \<longrightarrow>
      uploadImageToAsset fetch uuid imageData apiKey assetUrl =
        Inl (Error (''Failed to upload image: '' @ string_of_nat (status response) @ '' ''
                      @ statusText response @ '' - '' @ body_text response))) \<and>
   (\<forall>response result.
      fetch (upload_request uuid imageData apiKey assetUrl) = Inr response \<and> ok response \<and>
      json response = Inr result \<and>
      (json_member result ''fileContent'' = None \<or>
       (\<exists>fc. json_member result ''fileContent'' = Some fc \<and> json_member fc ''path'' = None)) \<longrightarrow>
      (\<exists>e. uploadImageToAsset fetch uuid imageData apiKey assetUrl = Inl e) \<and>
      (result \<noteq> JsonNull \<longrightarrow>
         uploadImageToAsset fetch uuid imageData apiKey assetUrl =
           Inl (Error ''No image path returned from asset API''))) \<and>
   (\<forall>p. uploadImageToAsset fetch uuid imageData apiKey assetUrl = Inr p \<longrightarrow>
      p \<noteq> JsonNull \<and> p \<noteq> JsonString [] \<and> \<not> json_falsy p \<and>
      (\<exists>response result fc.
         fetch (upload_request uuid imageData apiKey assetUrl) = Inr response \<and> ok response \<and>
         json response = Inr result \<and> json_member result ''fileContent'' = Some fc \<and>
         json_member fc ''path'' = Some p))"
proof (intro conjI allI impI)
  fix response
  assume "fetch (upload_request uuid imageData apiKey assetUrl) = Inr response \<and> \<not> ok response"
  then show "uploadImageToAsset fetch uuid imageData apiKey assetUrl =
        Inl (Error (''Failed to upload image: '' @ string_of_nat (status response) @ '' ''
                      @ statusText response @ '' - '' @ body_text response))"
    by (simp add: uploadImageToAsset_def)
next
  fix response result
  assume a: "fetch (upload_request uuid imageData apiKey assetUrl) = Inr response \<and> ok response \<and>
      json response = Inr result \<and>
      (json_member result ''fileContent'' = None \<or>
       (\<exists>fc. json_member result ''fileContent'' = Some fc \<and> json_member fc ''path'' = None))"
  show "\<exists>e. uploadImageToAsset fetch uuid imageData apiKey assetUrl = Inl e"
  proof (cases "result = JsonNull")
    case True
    then show ?thesis
      using a fileContent_path_null by (auto simp: uploadImageToAsset_def)
  next
    case False
    with a have "fileContent_path result = Inr None"
      by (simp add: fileContent_path_lacking)
    with a show ?thesis
      by (simp add: uploadImageToAsset_def)
  qed
next
  fix response result
  assume a: "fetch (upload_request uuid imageData apiKey assetUrl) = Inr response \<and> ok response \<and>
      json response = Inr result \<and>
      (json_member result ''fileContent'' = None \<or>
       (\<exists>fc. json_member result ''fileContent'' = Some fc \<and> json_member fc ''path'' = None))"
    and n: "result \<noteq> JsonNull"
  then have "fileContent_path result = Inr None"
    by (simp add: fileContent_path_lacking)
  with a show "uploadImageToAsset fetch uuid imageData apiKey assetUrl =
           Inl (Error ''No image path returned from asset API'')"
    by (simp add: uploadImageToAsset_def)
next
  fix p
  assume r: "uploadImageToAsset fetch uuid imageData apiKey assetUrl = Inr p"
  then have f: "\<not> json_falsy p"
    by (auto simp: uploadImageToAsset_def split: sum.splits if_splits option.splits)
  from f show "p \<noteq> JsonNull" by auto
  from f show "p \<noteq> JsonString []" by auto
  from f show "\<not> json_falsy p" .
  from r obtain response result where
    "fetch (upload_request uuid imageData apiKey assetUrl) = Inr response" "ok response"
    "json response = Inr result" "fileContent_path result = Inr (Some p)"
    by (auto simp: uploadImageToAsset_def split: sum.splits if_splits option.splits)
  then show "\<exists>response result fc.
         fetch (upload_request uuid imageData apiKey assetUrl) = Inr response \<and> ok response \<and>
         json response = Inr result \<and> json_member result ''fileContent'' = Some fc \<and>
         json_member fc ''path'' = Some p"
    using fileContent_path_found by blast
qed

theorem uploadImageToAsset_failures_witness:
  "uploadImageToAsset (example_asset_endpoint 503 ''Service Unavailable'' ''busy''
       (Inl (SyntaxError ''Unexpected token'')))
     ''u1'' example_image ''key'' ''https://assets.example/up''
     = Inl (Error ''Failed to upload image: 503 Service Unavailable - busy'') \<and>
   uploadImageToAsset (example_asset_endpoint 200 ''OK'' ''{}'' (Inr (JsonObject [])))
     ''u1'' example_image ''key'' ''https://assets.example/up''
     = Inl (Error ''No image path returned from asset API'') \<and>
   uploadImageToAsset (example_asset_endpoint 200 ''OK'' ''...''
       (Inr (JsonObject [(''fileContent'', JsonObject [(''path'', JsonString [])])])))
     ''u1'' example_image ''key'' ''https://assets.example/up''
     = Inl (Error ''No image path returned from asset API'') \<and>
   uploadImageToAsset (example_asset_endpoint 200 ''OK'' ''...''
       (Inr (JsonObject [(''fileContent'',
                          JsonObject [(''path'', JsonString ''images/relay.png'')])])))
     ''u1'' example_image ''key'' ''https://assets.example/up''
     = Inr (JsonString ''images/relay.png'')"
  using uploadImageToAsset_failures
    [of "example_asset_endpoint 503 ''Service Unavailable'' ''busy''
           (Inl (SyntaxError ''Unexpected token''))"
        "''u1''" example_image "''key''" "''https://assets.example/up''"]
   uploadImageToAsset_failures
    [of "example_asset_endpoint 200 ''OK'' ''{}'' (Inr (JsonObject []))"
        "''u1''" example_image "''key''" "''https://assets.example/up''"]
  by (simp add: example_asset_endpoint_def ok_def uploadImageToAsset_def fileContent_path_def
        string_of_nat.simps char_of_eq_iff)

text \<open>
  The claim as stated fails for the body \<open>null\<close>: it lacks \<open>fileContent.path\<close>, and the
  call fails while reading \<open>result.fileContent\<close>, with a \<open>TypeError\<close> and not with
  \<open>No image path returned from asset API\<close>. The type the source casts the body to
  has no \<open>null\<close>.
\<close>

theorem uploadImageToAsset_null_body:
  "json_member JsonNull ''fileContent'' = None \<and>
   uploadImageToAsset (example_asset_endpoint 200 ''OK'' ''null'' (Inr JsonNull))
     ''u1'' example_image ''key'' ''https://assets.example/up''
     = Inl (TypeError (''Cannot read properties of null (reading '' @ [CHR 0x27]
                         @ ''fileContent'' @ [CHR 0x27] @ '')'')) \<and>
   uploadImageToAsset (example_asset_endpoint 200 ''OK'' ''null'' (Inr JsonNull))
     ''u1'' example_image ''key'' ''https://assets.example/up''
     \<noteq> Inl (Error ''No image path returned from asset API'')"
  by (simp add: example_asset_endpoint_def ok_def uploadImageToAsset_def fileContent_path_def)

subsection \<open>Base64: \<open>atob\<close> decodes what the encoding writes\<close>

text \<open>Arithmetic of the six-bit groups.\<close>

lemma byte_bound: "unat (a :: 8 word) < 256"
  using unsigned_less [of a, where ?'a = nat] by simp

lemma sextets_join_1: "(n::nat) div 64 * 64 + n mod 64 = n"
  by simp

lemma sextets_join_2: "(n::nat) div 4096 * 4096 + n div 64 mod 64 * 64 + n mod 64 = n"
proof -
  define q1 where "q1 = n div 64"
  define q2 where "q2 = q1 div 64"
  have d: "n div 4096 = q2"
    by (simp add: q1_def q2_def div_mult2_eq)
  have 1: "n = q1 * 64 + n mod 64" by (simp add: q1_def)
  have 2: "q1 = q2 * 64 + q1 mod 64" by (simp add: q2_def)
  have key: "\<And>x y (q2::nat) q1 n. q1 = q2 * 64 + x \<Longrightarrow> n = q1 * 64 + y \<Longrightarrow>
     q2 * 4096 + x * 64 + y = n" by simp
  show ?thesis
    unfolding d using key [OF 2 1] by (simp add: q1_def)
qed

lemma sextets_join_3:
  "(n::nat) div 262144 * 262144 + n div 4096 mod 64 * 4096 + n div 64 mod 64 * 64 + n mod 64 = n"
proof -
  define q1 where "q1 = n div 64"
  define q2 where "q2 = q1 div 64"
  define q3 where "q3 = q2 div 64"
  have d2: "n div 4096 = q2"
    by (simp add: q1_def q2_def div_mult2_eq)
  have d3: "n div 262144 = q3"
    by (simp add: q1_def q2_def q3_def div_mult2_eq)
  have 1: "n = q1 * 64 + n mod 64" by (simp add: q1_def)
  have 2: "q1 = q2 * 64 + q1 mod 64" by (simp add: q2_def)
  have 3: "q2 = q3 * 64 + q2 mod 64" by (simp add: q3_def)
  have key: "\<And>x y z (q3::nat) q2 q1 n. q2 = q3 * 64 + x \<Longrightarrow> q1 = q2 * 64 + y \<Longrightarrow>
     n = q1 * 64 + z \<Longrightarrow> q3 * 262144 + x * 4096 + y * 64 + z = n" by simp
  show ?thesis
    unfolding d2 d3 using key [OF 3 2 1] by (simp add: q1_def)
qed

lemma split_step:
  fixes x k c :: nat
  assumes "c < k"
  shows "(x * k + c) div k = x" and "(x * k + c) mod k = c"
  using assms by simp_all

lemma bytes_split_3:
  fixes a b c :: nat
  assumes "a < 256" "b < 256" "c < 256"
  shows "(a * 65536 + b * 256 + c) div 65536 mod 256 = a"
    and "(a * 65536 + b * 256 + c) div 256 mod 256 = b"
    and "(a * 65536 + b * 256 + c) mod 256 = c"
proof -
  have e: "a * 65536 + b * 256 + c = (a * 256 + b) * 256 + c" by simp
  note m = split_step(1) [OF assms(3), of "a * 256 + b"]
  note r = split_step(2) [OF assms(3), of "a * 256 + b"]
  note m' = split_step(1) [OF assms(2), of a]
  note r' = split_step(2) [OF assms(2), of a]
  have a: "a mod 256 = a"
    using assms by simp
  show "(a * 65536 + b * 256 + c) mod 256 = c"
    by (simp only: e r)
  show "(a * 65536 + b * 256 + c) div 256 mod 256 = b"
    by (simp only: e m r')
  have "n div 65536 = n div 256 div 256" for n :: nat
    by (simp add: div_mult2_eq)
  then have "(a * 65536 + b * 256 + c) div 65536 = ((a * 256 + b) * 256 + c) div 256 div 256"
    by (simp only: e)
  then show "(a * 65536 + b * 256 + c) div 65536 mod 256 = a"
    by (simp only: m m' a)
qed

lemma bytes_split_2:
  fixes a b :: nat
  assumes "a < 256" "b < 256"
  shows "(a * 256 + b) * 4 div 4 div 256 mod 256 = a"
    and "(a * 256 + b) * 4 div 4 mod 256 = b"
  using assms by simp_all

lemma bytes_split_1:
  fixes a :: nat
  assumes "a < 256"
  shows "a * 16 div 16 mod 256 = a"
  using assms by simp

text \<open>Letters of the alphabet and their values.\<close>

lemma base64_value_digit: "n < 64 \<Longrightarrow> base64_value (base64_digit n) = Some n"
  by (auto simp: base64_value_def base64_digit_def Let_def)

lemma base64_value_alphabet:
  "base64_value c = Some v \<Longrightarrow>
     \<not> ascii_whitespace c \<and> c \<noteq> CHR ''='' \<and> c \<noteq> CHR '','' \<and> c \<noteq> CHR '';''"
  by (auto simp: base64_value_def ascii_whitespace_def Let_def split: if_splits)

lemma group_bound:
  fixes a b c :: nat
  assumes "a < 256" "b < 256" "c < 256"
  shows "(a * 65536 + b * 256 + c) div 262144 < 64"
proof -
  have "a * 65536 + b * 256 + c < 64 * 262144"
    using assms by linarith
  then show ?thesis by (rule less_mult_imp_div_less)
qed

lemma base64_sextets_bound: "\<forall>v \<in> set (base64_sextets bs). v < 64"
proof (induction bs rule: base64_sextets.induct)
  case (1 a b c rest)
  then show ?case
    by (simp add: Let_def group_bound [OF byte_bound byte_bound byte_bound])
next
  case (2 a b)
  have "(unat a * 256 + unat b) * 4 < 64 * 4096"
    using byte_bound [of a] byte_bound [of b] by simp
  then have "(unat a * 256 + unat b) * 4 div 4096 < 64"
    by (rule less_mult_imp_div_less)
  then show ?case by (simp add: Let_def)
next
  case (3 a)
  have "unat a * 16 < 64 * 64"
    using byte_bound [of a] by simp
  then have "unat a * 16 div 64 < 64"
    by (rule less_mult_imp_div_less)
  then show ?case by (simp add: Let_def)
next
  case 4
  then show ?case by simp
qed

lemma decode_step_3:
  "decode_sextets (n div 262144 # n div 4096 mod 64 # n div 64 mod 64 # n mod 64 # vs) =
     char_of (n div 65536 mod 256) # char_of (n div 256 mod 256) # char_of (n mod 256)
       # decode_sextets vs"
  by (simp only: decode_sextets.simps Let_def sextets_join_3)

lemma decode_step_2:
  "decode_sextets [n div 4096, n div 64 mod 64, n mod 64] =
     [char_of (n div 4 div 256 mod 256), char_of (n div 4 mod 256)]"
  by (simp only: decode_sextets.simps Let_def sextets_join_2)

lemma decode_step_1:
  "decode_sextets [n div 64, n mod 64] = [char_of (n div 16 mod 256)]"
  by (simp only: decode_sextets.simps Let_def sextets_join_1)

lemma decode_sextets_base64_sextets:
  "decode_sextets (base64_sextets bs) = map (\<lambda>b. char_of (unat b)) bs"
proof (induction bs rule: base64_sextets.induct)
  case (1 a b c rest)
  show ?case
    by (simp only: base64_sextets.simps Let_def decode_step_3 list.map "1.IH"
          bytes_split_3 [OF byte_bound byte_bound byte_bound])
next
  case (2 a b)
  show ?case
    by (simp only: base64_sextets.simps Let_def decode_step_2 list.map
          bytes_split_2 [OF byte_bound byte_bound])
next
  case (3 a)
  show ?case
    by (simp only: base64_sextets.simps Let_def decode_step_1 list.map
          bytes_split_1 [OF byte_bound])
next
  case 4
  show ?case by simp
qed

lemma base64_values_digits:
  "\<forall>v \<in> set vs. v < 64 \<Longrightarrow> base64_values (map base64_digit vs) = Some vs"
  by (induction vs) (simp_all add: base64_value_digit)

lemma bytes_of_binary_string_chars:
  "bytes_of_binary_string (map (\<lambda>b. char_of (unat b)) bs) = bs"
proof -
  have "(word_of_nat (unat a mod 256) :: byte) = a" for a :: byte
    using byte_bound [of a] by simp
  then show ?thesis
    by (induction bs) (simp_all add: bytes_of_binary_string_def)
qed

text \<open>Lengths, padding, and the decoding of an encoded text.\<close>

lemma base64_digit_alphabet:
  "n < 64 \<Longrightarrow> \<not> ascii_whitespace (base64_digit n) \<and> base64_digit n \<noteq> CHR ''=''
     \<and> base64_digit n \<noteq> CHR '','' \<and> base64_digit n \<noteq> CHR '';''"
  using base64_value_alphabet [OF base64_value_digit] by blast

lemma mod3_step: "Suc (Suc (Suc n)) mod 3 = n mod 3"
  by presburger

lemma length_base64_sextets:
  "length (base64_sextets bs) mod 4 = (case length bs mod 3 of 0 \<Rightarrow> 0 | Suc 0 \<Rightarrow> 2 | _ \<Rightarrow> 3)"
proof (induction bs rule: base64_sextets.induct)
  case (1 a b c rest)
  have "length (base64_sextets (a # b # c # rest)) = length (base64_sextets rest) + 4"
    by (simp add: Let_def)
  then show ?case
    using "1.IH" by (simp add: mod3_step)
qed (simp_all add: Let_def)

lemma length_base64_sextets_not_1: "length (base64_sextets bs) mod 4 \<noteq> 1"
  by (simp add: length_base64_sextets split: nat.splits)

lemma base64_sextets_empty: "base64_sextets bs = [] \<longleftrightarrow> bs = []"
  by (induction bs rule: base64_sextets.induct) (simp_all add: Let_def)

lemma base64_padding_cases:
  "base64_padding n = (case n mod 3 of 0 \<Rightarrow> [] | Suc 0 \<Rightarrow> ''=='' | _ \<Rightarrow> ''='')"
proof -
  have "n mod 3 = 0 \<or> n mod 3 = 1 \<or> n mod 3 = 2" by presburger
  then show ?thesis
    by (auto simp: base64_padding_def numeral_2_eq_2)
qed

lemma pad_to_four:
  fixes k :: nat
  shows "k mod 4 = Suc (Suc 0) \<Longrightarrow> Suc (Suc k) mod 4 = 0"
    and "k mod 4 = 3 \<Longrightarrow> Suc k mod 4 = 0"
  by presburger+

lemma length_base64_encode_padded: "length (base64_encode True bs) mod 4 = 0"
proof -
  have "length bs mod 3 = 0 \<or> length bs mod 3 = 1 \<or> length bs mod 3 = 2" by presburger
  then show ?thesis
    using length_base64_sextets [of bs]
    by (auto simp: base64_encode_def base64_padding_cases numeral_2_eq_2 pad_to_four)
qed

lemma last_digit_not_padding:
  assumes "vs \<noteq> []" "\<forall>v \<in> set vs. v < 64"
  shows "last (map base64_digit vs) \<noteq> CHR ''=''"
proof -
  have "last vs \<in> set vs" using assms(1) by simp
  then have "last vs < 64" using assms(2) by blast
  then show ?thesis
    using assms(1) base64_digit_alphabet [of "last vs"] by (simp add: last_map)
qed

lemma remove_padding_digits:
  assumes "\<forall>v \<in> set vs. v < 64"
  shows "remove_padding (map base64_digit vs) = map base64_digit vs"
    and "remove_padding (map base64_digit vs @ ''='') = map base64_digit vs"
    and "remove_padding (map base64_digit vs @ ''=='') = map base64_digit vs"
proof -
  have l: "vs \<noteq> [] \<Longrightarrow> last (map base64_digit vs) \<noteq> CHR ''=''"
    using assms by (simp add: last_digit_not_padding)
  show "remove_padding (map base64_digit vs) = map base64_digit vs"
    using l by (cases "vs = []") (simp_all add: remove_padding_def)
  show "remove_padding (map base64_digit vs @ ''='') = map base64_digit vs"
    using l by (cases "vs = []") (simp_all add: remove_padding_def butlast_append)
  show "remove_padding (map base64_digit vs @ ''=='') = map base64_digit vs"
    using l by (cases "vs = []") (simp_all add: remove_padding_def butlast_append)
qed

lemma remove_padding_base64_encode:
  "remove_padding (base64_encode padded bs) = map base64_digit (base64_sextets bs)"
proof -
  have "length bs mod 3 = 0 \<or> length bs mod 3 = 1 \<or> length bs mod 3 = 2" by presburger
  then show ?thesis
    using remove_padding_digits [OF base64_sextets_bound, of bs]
    by (auto simp: base64_encode_def base64_padding_cases numeral_2_eq_2)
qed

lemma base64_encode_no_whitespace:
  "filter (\<lambda>c. \<not> ascii_whitespace c) (base64_encode padded bs) = base64_encode padded bs"
proof -
  have "\<forall>c \<in> set (map base64_digit (base64_sextets bs)). \<not> ascii_whitespace c"
    using base64_sextets_bound [of bs] base64_digit_alphabet by auto
  moreover have "\<not> ascii_whitespace (CHR ''='')"
    by (simp add: ascii_whitespace_def)
  ultimately have "\<forall>c \<in> set (base64_encode padded bs). \<not> ascii_whitespace c"
    by (auto simp: base64_encode_def base64_padding_def)
  then show ?thesis by (simp add: filter_id_conv)
qed

lemma atob_base64_encode:
  "atob (base64_encode padded bs) = Inr (map (\<lambda>b. char_of (unat b)) bs)"
proof -
  let ?digits = "map base64_digit (base64_sextets bs)"
  let ?stripped = "filter (\<lambda>c. \<not> ascii_whitespace c) (base64_encode padded bs)"
  have s: "?stripped = base64_encode padded bs"
    by (rule base64_encode_no_whitespace)
  have u': "(if length (base64_encode padded bs) mod 4 = 0
             then remove_padding (base64_encode padded bs)
             else base64_encode padded bs) = ?digits"
  proof (cases "length (base64_encode padded bs) mod 4 = 0")
    case True
    then show ?thesis
      by (simp add: remove_padding_base64_encode)
  next
    case False
    then have "\<not> padded"
      using length_base64_encode_padded [of bs] by (cases padded) simp_all
    then have "base64_encode padded bs = ?digits"
      by (simp add: base64_encode_def)
    with False show ?thesis
      by simp
  qed
  have u: "(if length ?stripped mod 4 = 0 then remove_padding ?stripped else ?stripped) = ?digits"
    unfolding s by (rule u')
  have n: "length ?digits mod 4 \<noteq> 1"
    using length_base64_sextets_not_1 [of bs] by simp
  have v: "base64_values ?digits = Some (base64_sextets bs)"
    by (simp add: base64_values_digits base64_sextets_bound)
  show ?thesis
    unfolding atob_def Let_def u
    using n by (simp add: v decode_sextets_base64_sextets)
qed

subsection \<open>\<open>processImageUrl\<close> on data URIs\<close>

lemma split_nonempty: "split s sep \<noteq> []"
  by (induction s) (auto split: list.splits)

lemma split_no_separator: "sep \<notin> set s \<Longrightarrow> split s sep = [s]"
  by (induction s) auto

lemma split_first_separator:
  "sep \<notin> set h \<Longrightarrow> split (h @ sep # rest) sep = h # split rest sep"
  by (induction h) auto

lemma split_head: "at_index (split v sep) 0 = Some (takeWhile (\<lambda>c. c \<noteq> sep) v)"
proof -
  have "\<exists>segs. split v sep = takeWhile (\<lambda>c. c \<noteq> sep) v # segs"
    by (induction v) auto
  then show ?thesis by (auto simp: at_index_def)
qed

lemma base64_encode_no_comma: "CHR '','' \<notin> set (base64_encode padded bs)"
proof -
  have "CHR '','' \<notin> base64_digit ` set (base64_sextets bs)"
  proof
    assume "CHR '','' \<in> base64_digit ` set (base64_sextets bs)"
    then obtain v where v: "v \<in> set (base64_sextets bs)" "CHR '','' = base64_digit v"
      by (rule imageE)
    from v(1) have "v < 64"
      using base64_sextets_bound by blast
    then show False
      using base64_digit_alphabet [of v] v(2) by simp
  qed
  then show ?thesis
    by (simp add: base64_encode_def base64_padding_def)
qed

lemma base64_encode_empty: "base64_encode padded bs = [] \<longleftrightarrow> bs = []"
  by (auto simp: base64_encode_def base64_sextets_empty base64_padding_def)

lemma data_uri_media_type_declared:
  assumes "startsWith imageUrl ''data:image/''"
  shows "data_uri_media_type imageUrl =
           Some (takeWhile (\<lambda>c. c \<noteq> CHR '';'' \<and> c \<noteq> CHR '','') (drop 5 imageUrl))"
proof -
  obtain r where r: "imageUrl = ''data:image/'' @ r"
    using assms by (metis append_take_drop_id startsWith_def)
  show ?thesis
    unfolding r by (simp add: data_uri_media_type_def startsWith_def)
qed

lemma processImageUrl_no_payload:
  assumes "startsWith imageUrl ''data:image/''"
    and "at_index (split imageUrl (CHR '','')) 1 = None
         \<or> at_index (split imageUrl (CHR '','')) 1 = Some []"
  shows "processImageUrl fetch imageUrl = Inl (Error ''Invalid base64 image format'')"
  using assms by (auto simp: processImageUrl_def Let_def)

lemma data_uri_round_trip:
  assumes "bs \<noteq> []" and "\<forall>c \<in> set t. c \<noteq> CHR '';'' \<and> c \<noteq> CHR '',''"
  shows "processImageUrl fetch (''data:image/'' @ t @ '';base64,'' @ base64_encode padded bs)
           = Inr \<lparr>data = bs, mimeType = ''image/'' @ t\<rparr>"
proof -
  let ?payload = "base64_encode padded bs"
  let ?url = "''data:image/'' @ t @ '';base64,'' @ ?payload"
  have start: "startsWith ?url ''data:image/''"
    by (simp add: startsWith_def)
  have "takeWhile (\<lambda>c. c \<noteq> CHR '';'' \<and> c \<noteq> CHR '','') (t @ '';base64,'' @ ?payload) = t"
    using assms(2) by (simp add: takeWhile_append2)
  then have media: "data_uri_media_type ?url = Some (''image/'' @ t)"
    by (simp add: data_uri_media_type_def startsWith_def)
  have "CHR '','' \<notin> set (''data:image/'' @ t @ '';base64'')"
    using assms(2) by auto
  then have "split ((''data:image/'' @ t @ '';base64'') @ CHR '','' # ?payload) (CHR '','')
               = (''data:image/'' @ t @ '';base64'') # split ?payload (CHR '','')"
    by (rule split_first_separator)
  then have "split ?url (CHR '','') = [''data:image/'' @ t @ '';base64'', ?payload]"
    by (simp add: split_no_separator [OF base64_encode_no_comma])
  then have payload: "at_index (split ?url (CHR '','')) 1 = Some ?payload"
    by (simp add: at_index_def)
  have nonempty: "?payload \<noteq> []"
    using assms(1) by (simp add: base64_encode_empty)
  show ?thesis
    unfolding processImageUrl_def Let_def
    by (simp only: start if_True media payload option.case nonempty if_False
          atob_base64_encode sum.case bytes_of_binary_string_chars)
qed

lemmas atob_eval =
  atob_def ascii_whitespace_def remove_padding_def base64_value_def char_of_eq_iff
  bytes_of_binary_string_def

lemmas data_uri_eval =
  processImageUrl_def startsWith_def data_uri_media_type_def at_index_def

text \<open>
  Claim C5, as amended. On \<open>data:image/png;base64,\<close> followed by the base64 text,
  padded or not, of a sequence of \<open>N \<ge> 1\<close> bytes, \<open>processImageUrl\<close> returns exactly
  these bytes, so data of byte length \<open>N\<close>, with the MIME type \<open>image/png\<close>. On a data
  URI with no comma, or with nothing after its only comma, it fails with the error
  \<open>Invalid base64 image format\<close>.
\<close>

theorem processImageUrl_data_uri_png:
  "(bs \<noteq> [] \<longrightarrow>
      processImageUrl fetch (''data:image/png;base64,'' @ base64_encode padded bs)
        = Inr \<lparr>data = bs, mimeType = ''image/png''\<rparr>) \<and>
   (CHR '','' \<notin> set rest \<longrightarrow>
      processImageUrl fetch (''data:image/'' @ rest)
        = Inl (Error ''Invalid base64 image format'')) \<and>
   (CHR '','' \<notin> set rest \<longrightarrow>
      processImageUrl fetch (''data:image/'' @ rest @ '','')
        = Inl (Error ''Invalid base64 image format''))"
proof (intro conjI impI)
  assume "bs \<noteq> []"
  then show "processImageUrl fetch (''data:image/png;base64,'' @ base64_encode padded bs)
        = Inr \<lparr>data = bs, mimeType = ''image/png''\<rparr>"
    using data_uri_round_trip [of bs "''png''" fetch padded] by simp
next
  assume "CHR '','' \<notin> set rest"
  then have "CHR '','' \<notin> set (''data:image/'' @ rest)" by simp
  then have "split (''data:image/'' @ rest) (CHR '','') = [''data:image/'' @ rest]"
    by (rule split_no_separator)
  then have "at_index (split (''data:image/'' @ rest) (CHR '','')) 1 = None"
    by (simp add: at_index_def)
  then show "processImageUrl fetch (''data:image/'' @ rest)
        = Inl (Error ''Invalid base64 image format'')"
    by (simp add: processImageUrl_no_payload startsWith_def)
next
  assume "CHR '','' \<notin> set rest"
  then have "CHR '','' \<notin> set (''data:image/'' @ rest)" by simp
  then have "split ((''data:image/'' @ rest) @ CHR '','' # []) (CHR '','')
               = (''data:image/'' @ rest) # split [] (CHR '','')"
    by (rule split_first_separator)
  then have "at_index (split (''data:image/'' @ rest @ '','') (CHR '','')) 1 = Some []"
    by (simp add: at_index_def)
  then show "processImageUrl fetch (''data:image/'' @ rest @ '','')
        = Inl (Error ''Invalid base64 image format'')"
    by (simp add: processImageUrl_no_payload startsWith_def)
qed

theorem processImageUrl_data_uri_png_witness:
  "processImageUrl no_network ''data:image/png;base64,iVBORw==''
     = Inr \<lparr>data = [137, 80, 78, 71], mimeType = ''image/png''\<rparr> \<and>
   processImageUrl no_network ''data:image/png;base64''
     = Inl (Error ''Invalid base64 image format'')"
proof -
  have e: "base64_encode True [137, 80, 78, 71] = ''iVBORw==''"
    by (simp add: base64_encode_def base64_padding_cases base64_digit_def Let_def char_of_eq_iff)
  have n: "[137, 80, 78, 71] \<noteq> ([] :: byte list)" "CHR '','' \<notin> set ''png;base64''"
    by simp_all
  show ?thesis
    using processImageUrl_data_uri_png [of "[137, 80, 78, 71]" no_network True "''png;base64''"] n
    by (simp add: e)
qed

text \<open>
  The claim as stated fails for \<open>N = 0\<close>: the base64 text of no bytes is the empty
  text, and the data URI that ends in the comma is rejected by the test
  \<open>!base64Data\<close> instead of giving data of length zero.
\<close>

theorem processImageUrl_empty_payload:
  "base64_encode True [] = [] \<and>
   processImageUrl no_network (''data:image/png;base64,'' @ base64_encode True [])
     = Inl (Error ''Invalid base64 image format'')"
  by (simp add: base64_encode_def base64_padding_def data_uri_eval)

text \<open>
  Claim C8, as amended. For every input that starts with \<open>data:image/\<close>, whenever
  \<open>processImageUrl\<close> returns, the MIME type it returns is the declared media type,
  the text between \<open>data:\<close> and the first \<open>;\<close> or \<open>,\<close>, unchanged, whether the type
  is a recognized one or not: nothing is defaulted to \<open>image/png\<close>. A missing payload
  segment (no comma, or nothing after the only comma) is a hard error.
\<close>

theorem processImageUrl_data_uri_declared_type:
  assumes "startsWith imageUrl ''data:image/''"
  shows "(\<forall>image. processImageUrl fetch imageUrl = Inr image \<longrightarrow>
            mimeType image = takeWhile (\<lambda>c. c \<noteq> CHR '';'' \<and> c \<noteq> CHR '','') (drop 5 imageUrl)) \<and>
         (CHR '','' \<notin> set imageUrl \<longrightarrow>
            processImageUrl fetch imageUrl = Inl (Error ''Invalid base64 image format'')) \<and>
         (\<forall>h. imageUrl = h @ '','' \<and> CHR '','' \<notin> set h \<longrightarrow>
            processImageUrl fetch imageUrl = Inl (Error ''Invalid base64 image format''))"
proof (intro conjI allI impI)
  fix image
  assume "processImageUrl fetch imageUrl = Inr image"
  then show "mimeType image =
      takeWhile (\<lambda>c. c \<noteq> CHR '';'' \<and> c \<noteq> CHR '','') (drop 5 imageUrl)"
    using assms
    by (auto simp: processImageUrl_def Let_def data_uri_media_type_declared
             split: option.splits if_splits sum.splits)
next
  assume "CHR '','' \<notin> set imageUrl"
  then have "split imageUrl (CHR '','') = [imageUrl]"
    by (rule split_no_separator)
  then have "at_index (split imageUrl (CHR '','')) 1 = None"
    by (simp add: at_index_def)
  then show "processImageUrl fetch imageUrl = Inl (Error ''Invalid base64 image format'')"
    using assms by (simp add: processImageUrl_no_payload)
next
  fix h
  assume h: "imageUrl = h @ '','' \<and> CHR '','' \<notin> set h"
  then have "split (h @ CHR '','' # []) (CHR '','') = h # split [] (CHR '','')"
    by (simp add: split_first_separator)
  then have "at_index (split imageUrl (CHR '','')) 1 = Some []"
    using h by (simp add: at_index_def)
  then show "processImageUrl fetch imageUrl = Inl (Error ''Invalid base64 image format'')"
    using assms by (simp add: processImageUrl_no_payload)
qed

theorem processImageUrl_data_uri_declared_type_witness:
  "processImageUrl no_network ''data:image/x-icon;base64,AAE=''
     = Inr \<lparr>data = [0, 1], mimeType = ''image/x-icon''\<rparr> \<and>
   processImageUrl no_network ''data:image/x-icon;base64''
     = Inl (Error ''Invalid base64 image format'')"
proof -
  have s: "startsWith ''data:image/x-icon;base64,AAE='' ''data:image/''"
    "startsWith ''data:image/x-icon;base64'' ''data:image/''"
    by (simp_all add: startsWith_def)
  have r: "processImageUrl no_network ''data:image/x-icon;base64,AAE=''
     = Inr \<lparr>data = [0, 1], mimeType = ''image/x-icon''\<rparr>"
    by (simp add: data_uri_eval atob_eval)
  show ?thesis
    using processImageUrl_data_uri_declared_type [OF s(1), of no_network]
      processImageUrl_data_uri_declared_type [OF s(2), of no_network] r
    by simp
qed

text \<open>
  The claim as stated fails: \<open>image/bmp\<close> is not among the supported types, and the
  data URI that declares it is returned with \<open>image/bmp\<close>, not \<open>image/png\<close>.
\<close>

theorem processImageUrl_data_uri_unrecognized_type:
  "''image/bmp'' \<notin> SUPPORTED_MIME_TYPES \<and>
   processImageUrl no_network ''data:image/bmp;base64,AAAA''
     = Inr \<lparr>data = [0, 0, 0], mimeType = ''image/bmp''\<rparr>"
  by (simp add: SUPPORTED_MIME_TYPES_def MIME_TO_EXT_def data_uri_eval atob_eval)

subsection \<open>\<open>processImageUrl\<close> on HTTP(S) URLs\<close>

lemma http_url_not_data_uri:
  assumes "startsWith imageUrl ''http://'' \<or> startsWith imageUrl ''https://''"
  shows "\<not> startsWith imageUrl ''data:image/''"
  using assms by (cases imageUrl) (auto simp: startsWith_def)

lemma raw_mime_declared_type:
  "(case at_index (split v (CHR '';'')) 0 of None \<Rightarrow> None | Some seg \<Rightarrow> Some (trim seg))
     = Some (declared_type v)"
  by (simp add: split_head declared_type_def)

lemma SUPPORTED_MIME_TYPES_eq:
  "SUPPORTED_MIME_TYPES = {''image/jpeg'', ''image/png'', ''image/webp'', ''image/gif''}"
  by (simp add: SUPPORTED_MIME_TYPES_def MIME_TO_EXT_def)

text \<open>
  Claim C6. For an HTTP(S) URL whose fetch gives a response with a status in 200..299,
  \<open>processImageUrl\<close> returns the body with this MIME type: the declared content type
  (the header value before any \<open>;\<close>, without the white space around it) if that is one
  of \<open>image/jpeg\<close>, \<open>image/png\<close>, \<open>image/webp\<close>, \<open>image/gif\<close>, unchanged; and
  \<open>image/png\<close> for every other declared type and when the header is absent.
\<close>

theorem processImageUrl_http_mime_type:
  assumes "startsWith imageUrl ''http://'' \<or> startsWith imageUrl ''https://''"
    and "fetch (image_request imageUrl) = Inr response"
    and "ok response"
  shows "processImageUrl fetch imageUrl =
           Inr \<lparr>data = arrayBuffer response,
                mimeType =
                  (case headers_get response ''content-type'' of
                     None \<Rightarrow> ''image/png''
                   | Some v \<Rightarrow>
                       if declared_type v
                            \<in> {''image/jpeg'', ''image/png'', ''image/webp'', ''image/gif''}
                       then declared_type v
                       else ''image/png'')\<rparr>"
proof (cases "headers_get response ''content-type''")
  case None
  then show ?thesis
    using assms(2,3) http_url_not_data_uri [OF assms(1)]
    by (simp add: processImageUrl_def)
next
  case (Some v)
  have "[] \<notin> SUPPORTED_MIME_TYPES"
    by (simp add: SUPPORTED_MIME_TYPES_eq)
  then have "(declared_type v \<noteq> [] \<and> declared_type v \<in> SUPPORTED_MIME_TYPES)
               = (declared_type v \<in> SUPPORTED_MIME_TYPES)"
    by auto
  then show ?thesis
    using assms(2,3) http_url_not_data_uri [OF assms(1)] Some
    by (simp add: processImageUrl_def Let_def raw_mime_declared_type
          SUPPORTED_MIME_TYPES_eq [symmetric])
qed


theorem processImageUrl_http_mime_type_witness:
  "processImageUrl (example_origin [(''content-type'', ''application/octet-stream'')])
     ''https://a.example/1''
     = Inr \<lparr>data = [137, 80], mimeType = ''image/png''\<rparr> \<and>
   processImageUrl (example_origin [(''content-type'', ''image/webp; charset=binary'')])
     ''https://a.example/1''
     = Inr \<lparr>data = [137, 80], mimeType = ''image/webp''\<rparr> \<and>
   processImageUrl (example_origin []) ''http://a.example/1''
     = Inr \<lparr>data = [137, 80], mimeType = ''image/png''\<rparr>"
proof -
  have u: "startsWith ''https://a.example/1'' ''http://''
             \<or> startsWith ''https://a.example/1'' ''https://''"
    and v: "startsWith ''http://a.example/1'' ''http://''
             \<or> startsWith ''http://a.example/1'' ''https://''"
    by (simp_all add: startsWith_def)
  have f: "example_origin hs request =
             Inr \<lparr>status = 200, statusText = ''OK'', headers = hs, arrayBuffer = [137, 80],
                  body_text = [], json = Inl (SyntaxError ''Unexpected token'')\<rparr>"
    for hs request
    by (simp add: example_origin_def)
  have k: "ok \<lparr>status = 200, statusText = ''OK'', headers = hs, arrayBuffer = [137, 80],
                  body_text = [], json = Inl (SyntaxError ''Unexpected token'')\<rparr>" for hs
    by (simp add: ok_def)
  show ?thesis
    using processImageUrl_http_mime_type [OF u f k]
      processImageUrl_http_mime_type [OF v f k]
    by (simp add: headers_get_def declared_type_def trim_def js_whitespace_def)
qed

section \<open>Properties of model validation\<close>

text \<open>
  Claim C1. Whenever \<open>validateModelAndMessages\<close> returns a validated model, the catalog
  lookup of that call returned a snapshot, and the returned \<open>cleanModel\<close> is a member of
  that snapshot's \<open>chatModelIds\<close>: validation succeeds for no model id outside it.
\<close>

theorem validateModelAndMessages_success_is_chat_model:
  "validateModelAndMessages parseAndGetConfig getModelData processMessages
       rawModel messages env w = (Inr validated, w') \<Longrightarrow>
   \<exists>modelData w1.
      getModelData env w = (Inr modelData, w1) \<and>
      cleanModel validated \<in> set (chatModelIds modelData)"
  by (auto simp: validateModelAndMessages_def Let_def
           split: option.splits prod.splits sum.splits if_splits)

theorem validateModelAndMessages_success_is_chat_model_witness:
  "validateModelAndMessages example_parse example_getModelData example_process
     ''gpt-4o'' [\<lparr>role = ''user'', content = ContentString ''hi''\<rparr>] () []
     = (Inr \<lparr>cleanModel = ''gpt-4o'', webSearchConfig = None,
              processedMessages = [\<lparr>role = ''user'', content = ContentString ''hi''\<rparr>]\<rparr>,
        [''getModelData'', ''processMessagesWithImageCheck'']) \<and>
   ''gpt-4o'' \<in> set (chatModelIds example_catalog)"
proof -
  have run: "validateModelAndMessages example_parse example_getModelData example_process
     ''gpt-4o'' [\<lparr>role = ''user'', content = ContentString ''hi''\<rparr>] () []
     = (Inr \<lparr>cleanModel = ''gpt-4o'', webSearchConfig = None,
              processedMessages = [\<lparr>role = ''user'', content = ContentString ''hi''\<rparr>]\<rparr>,
        [''getModelData'', ''processMessagesWithImageCheck''])"
    by (simp add: example_defs)
  from validateModelAndMessages_success_is_chat_model [OF run]
  show ?thesis using run by (simp add: example_getModelData_def)
qed

text \<open>
  Claim C2. When parsing the model string reports an error (the \<open>error\<close> of the parse
  result is truthy, which is the source's test), \<open>validateModelAndMessages\<close> fails with
  the \<open>ValidationError\<close> carrying that error, field \<open>model\<close> and code
  \<open>model_not_found\<close>, and the state of the world is returned as it was received,
  whatever the catalog lookup and the message pass would have done to it: neither has
  been invoked.
\<close>

theorem validateModelAndMessages_parse_error_first:
  "truthy (error (parseAndGetConfig rawModel env)) \<Longrightarrow>
   \<exists>e. error (parseAndGetConfig rawModel env) = Some e \<and>
       validateModelAndMessages parseAndGetConfig getModelData processMessages
         rawModel messages env w
       = (Inl (ValidationError e ''model'' ''model_not_found''), w)"
  by (auto simp: validateModelAndMessages_def Let_def truthy_def split: option.splits)

theorem validateModelAndMessages_parse_error_first_witness:
  "truthy (error (example_parse [] ())) \<and>
   validateModelAndMessages example_parse example_getModelData example_process
     [] [\<lparr>role = ''user'', content = ContentString ''hi''\<rparr>] () []
     = (Inl (ValidationError ''Model name is required'' ''model'' ''model_not_found''), [])"
proof -
  have h: "truthy (error (example_parse [] ()))"
    by (simp add: example_parse_def truthy_def)
  from validateModelAndMessages_parse_error_first
         [where parseAndGetConfig = example_parse and rawModel = "[]" and env = "()"
            and getModelData = example_getModelData and processMessages = example_process
            and messages = "[\<lparr>role = ''user'', content = ContentString ''hi''\<rparr>]"
            and w = "[]", OF h]
  show ?thesis using h by (simp add: example_parse_def)
qed

text \<open>
  Claim C3. For a parsed model id that is not in \<open>chatModelIds\<close> of the snapshot: if the
  id is in \<open>imageModelIds\<close>, validation fails with the \<open>ValidationError\<close> of field
  \<open>model\<close> and code \<open>model_not_supported\<close> whose message names the image-generation
  endpoint \<open>POST /v1/images/generations\<close>; otherwise it fails with
  \<open>ModelNotFoundError\<close> carrying the clean model id.
\<close>

theorem validateModelAndMessages_not_chat_model:
  "\<not> truthy (error (parseAndGetConfig rawModel env)) \<Longrightarrow>
   getModelData env w = (Inr modelData, w1) \<Longrightarrow>
   model = ModelParseResult.cleanModel (parseAndGetConfig rawModel env) \<Longrightarrow>
   model \<notin> set (chatModelIds modelData) \<Longrightarrow>
   (model \<in> set (imageModelIds modelData) \<longrightarrow>
      validateModelAndMessages parseAndGetConfig getModelData processMessages
        rawModel messages env w
      = (Inl (ValidationError
                (''Model '' @ [CHR 0x27] @ model @ [CHR 0x27] @ '' is an image generation model. ''
                   @ ''Use POST /v1/images/generations instead.'')
                ''model'' ''model_not_supported''), w1)) \<and>
   (model \<notin> set (imageModelIds modelData) \<longrightarrow>
      validateModelAndMessages parseAndGetConfig getModelData processMessages
        rawModel messages env w
      = (Inl (ModelNotFoundError model), w1))"
  by (simp add: validateModelAndMessages_def Let_def)

theorem validateModelAndMessages_not_chat_model_witness:
  "validateModelAndMessages example_parse example_getModelData example_process
     ''img-gen-1'' [] () []
     = (Inl (ValidationError
               (''Model '' @ [CHR 0x27] @ ''img-gen-1'' @ [CHR 0x27]
                  @ '' is an image generation model. Use POST /v1/images/generations instead.'')
               ''model'' ''model_not_supported''), [''getModelData'']) \<and>
   validateModelAndMessages example_parse example_getModelData example_process
     ''no-such-model'' [] () []
     = (Inl (ModelNotFoundError ''no-such-model''), [''getModelData''])"
proof -
  have a: "\<not> truthy (error (example_parse ''img-gen-1'' ()))"
    and b: "\<not> truthy (error (example_parse ''no-such-model'' ()))"
    by (simp_all add: example_parse_def truthy_def)
  have c: "example_getModelData () [] = (Inr example_catalog, [''getModelData''])"
    by (simp add: example_getModelData_def)
  have d: "''img-gen-1'' = ModelParseResult.cleanModel (example_parse ''img-gen-1'' ())"
    and e: "''no-such-model'' = ModelParseResult.cleanModel (example_parse ''no-such-model'' ())"
    by (simp_all add: example_parse_def)
  have f: "''img-gen-1'' \<notin> set (chatModelIds example_catalog)"
    and g: "''no-such-model'' \<notin> set (chatModelIds example_catalog)"
    by (simp_all add: example_catalog_def)
  from validateModelAndMessages_not_chat_model
         [where parseAndGetConfig = example_parse and rawModel = "''img-gen-1''" and env = "()"
            and getModelData = example_getModelData and processMessages = example_process
            and messages = "[]" and w = "[]", OF a c d f]
       validateModelAndMessages_not_chat_model
         [where parseAndGetConfig = example_parse and rawModel = "''no-such-model''" and env = "()"
            and getModelData = example_getModelData and processMessages = example_process
            and messages = "[]" and w = "[]", OF b c e g]
  show ?thesis by (simp add: example_catalog_def)
qed

text \<open>What the specified message pass reports as \<open>hasImages\<close>.\<close>

lemma hasImages_iff:
  "snd (processMessagesWithImageCheck canonical messages) =
     (\<exists>m \<in> set messages. \<exists>items. content m = ContentArray items \<and>
        (\<exists>p \<in> set items. image_part_url p \<noteq> None))"
proof -
  have "content_has_image c = (\<exists>items. c = ContentArray items \<and>
        (\<exists>p \<in> set items. image_part_url p \<noteq> None))" for c
    by (cases c) auto
  then show ?thesis by (simp add: processMessagesWithImageCheck_def)
qed

text \<open>
  Claim C4. For a chat model that is not in \<open>visionModelIds\<close> and a message list with at
  least one part of type \<open>image_url\<close> with a present url, validation fails with the
  \<open>ValidationError\<close> of code \<open>model_not_supported\<close> stating that the model does not
  support image inputs; with the same model added to \<open>visionModelIds\<close>, the same input
  is validated. The message pass is the one the specification describes.
\<close>

theorem validateModelAndMessages_vision_required:
  assumes parsed: "\<not> truthy (error (parseAndGetConfig rawModel env))"
    and model: "model = ModelParseResult.cleanModel (parseAndGetConfig rawModel env)"
    and catalog: "getModelData env w = (Inr modelData, w1)"
    and chat: "model \<in> set (chatModelIds modelData)"
    and no_vision: "model \<notin> set (visionModelIds modelData)"
    and catalog': "getModelData' env w =
                     (Inr (modelData\<lparr>visionModelIds := visionModelIds modelData @ [model]\<rparr>), w1)"
    and image: "\<exists>m \<in> set messages. \<exists>items. content m = ContentArray items \<and>
                  (\<exists>p \<in> set items. image_part_url p \<noteq> None)"
  shows "validateModelAndMessages parseAndGetConfig getModelData
           (\<lambda>ms s. (Inr (processMessagesWithImageCheck canonical ms), s))
           rawModel messages env w
         = (Inl (ValidationError
                   (''Model '' @ [CHR 0x27] @ model @ [CHR 0x27]
                      @ '' does not support image inputs'')
                   ''model'' ''model_not_supported''), w1) \<and>
         validateModelAndMessages parseAndGetConfig getModelData'
           (\<lambda>ms s. (Inr (processMessagesWithImageCheck canonical ms), s))
           rawModel messages env w
         = (Inr \<lparr>cleanModel = model,
                  webSearchConfig =
                    ModelParseResult.webSearchConfig (parseAndGetConfig rawModel env),
                  processedMessages = fst (processMessagesWithImageCheck canonical messages)\<rparr>,
            w1)"
proof -
  from image have has: "snd (processMessagesWithImageCheck canonical messages)"
    by (simp only: hasImages_iff)
  obtain processed where run:
    "processMessagesWithImageCheck canonical messages = (processed, True)"
    using has by (cases "processMessagesWithImageCheck canonical messages") simp
  show ?thesis
    using parsed model catalog chat no_vision catalog' run
    by (simp add: validateModelAndMessages_def Let_def)
qed

theorem validateModelAndMessages_vision_required_witness:
  "validateModelAndMessages example_parse example_getModelData
     (\<lambda>ms s. (Inr (processMessagesWithImageCheck ContentArray ms), s))
     ''mistral-small''
     [\<lparr>role = ''user'',
       content = ContentArray [TextContent ''what is this?'',
                               ImageContent (Some \<lparr>url = ''https://a.example/1.png''\<rparr>)]\<rparr>]
     () []
   = (Inl (ValidationError
             (''Model '' @ [CHR 0x27] @ ''mistral-small'' @ [CHR 0x27]
                @ '' does not support image inputs'')
             ''model'' ''model_not_supported''), [''getModelData'']) \<and>
   validateModelAndMessages example_parse
     (\<lambda>env log. (Inr (example_catalog\<lparr>visionModelIds :=
                          visionModelIds example_catalog @ [''mistral-small'']\<rparr>),
                  log @ [''getModelData'']))
     (\<lambda>ms s. (Inr (processMessagesWithImageCheck ContentArray ms), s))
     ''mistral-small''
     [\<lparr>role = ''user'',
       content = ContentArray [TextContent ''what is this?'',
                               ImageContent (Some \<lparr>url = ''https://a.example/1.png''\<rparr>)]\<rparr>]
     () []
   = (Inr \<lparr>cleanModel = ''mistral-small'', webSearchConfig = None,
            processedMessages =
              [\<lparr>role = ''user'',
                content = ContentArray [TextContent ''what is this?'',
                            ImageContent (Some \<lparr>url = ''https://a.example/1.png''\<rparr>)]\<rparr>]\<rparr>,
      [''getModelData''])"
proof -
  let ?msgs = "[\<lparr>role = ''user'',
       content = ContentArray [TextContent ''what is this?'',
                               ImageContent (Some \<lparr>url = ''https://a.example/1.png''\<rparr>)]\<rparr>]"
  have a: "\<not> truthy (error (example_parse ''mistral-small'' ()))"
    by (simp add: example_parse_def truthy_def)
  have b: "''mistral-small'' = ModelParseResult.cleanModel (example_parse ''mistral-small'' ())"
    by (simp add: example_parse_def)
  have c: "example_getModelData () [] = (Inr example_catalog, [''getModelData''])"
    by (simp add: example_getModelData_def)
  have d: "''mistral-small'' \<in> set (chatModelIds example_catalog)"
    and e: "''mistral-small'' \<notin> set (visionModelIds example_catalog)"
    by (simp_all add: example_catalog_def)
  have f: "(\<lambda>env log. (Inr (example_catalog\<lparr>visionModelIds :=
                          visionModelIds example_catalog @ [''mistral-small'']\<rparr>),
                  log @ [''getModelData''])) () []
           = (Inr (example_catalog\<lparr>visionModelIds :=
                          visionModelIds example_catalog @ [''mistral-small'']\<rparr>),
              [''getModelData''])"
    by simp
  have g: "\<exists>m \<in> set ?msgs. \<exists>items. content m = ContentArray items \<and>
                  (\<exists>p \<in> set items. image_part_url p \<noteq> None)"
    by (simp add: truthy_def image_url_url_def)
  from validateModelAndMessages_vision_required
         [where parseAndGetConfig = example_parse and rawModel = "''mistral-small''"
            and env = "()" and getModelData = example_getModelData and w = "[]"
            and messages = ?msgs and canonical = ContentArray
            and model = "''mistral-small''" and modelData = example_catalog
            and ?w1.0 = "[''getModelData'']"
            and getModelData' = "\<lambda>env log. (Inr (example_catalog\<lparr>visionModelIds :=
                          visionModelIds example_catalog @ [''mistral-small'']\<rparr>),
                  log @ [''getModelData''])", OF a b c d e f g]
  show ?thesis
    by (simp add: example_parse_def processMessagesWithImageCheck_def)
qed

end
